theory Spec2Isabelle
  imports Complex_Main
begin

section \<open>Values of the Python runtime used by simulation.py\<close>

text \<open>
  The exceptions that the statements of \<^verbatim>\<open>simulation.py\<close> can raise: the \<^verbatim>\<open>assert\<close> of
  the constructor, the division in \<^verbatim>\<open>get_steps_per_hour\<close>, \<^verbatim>\<open>randrange\<close> on an empty
  range and \<^verbatim>\<open>list.remove\<close> of an absent element (both \<^verbatim>\<open>ValueError\<close>), the argument
  checks of \<^verbatim>\<open>choices\<close>, and the \<^verbatim>\<open>TypeError\<close> of \<^verbatim>\<open>json_serial\<close> and of the JSON
  encoder, which carries its message.
\<close>

datatype error = AssertionError | ZeroDivisionError | ValueError | IndexError | TypeError string

text \<open>
  A \<^verbatim>\<open>datetime\<close> is the number of microseconds since the epoch, a \<^verbatim>\<open>timedelta\<close> a number
  of microseconds; both are unbounded integers here (the library's year-9999 limit is not
  modelled). Floats are real numbers.
\<close>

type_synonym datetime = int
type_synonym timedelta = int

definition timedelta_seconds :: "int \<Rightarrow> timedelta" where
  "timedelta_seconds n = n * 1000000"

definition round_half_even :: "real \<Rightarrow> int" where
  "round_half_even x =
     (let q = \<lfloor>x\<rfloor>; r = x - of_int q
      in if r < 1 / 2 then q else if 1 / 2 < r then q + 1 else if even q then q else q + 1)"

definition timedelta_days :: "real \<Rightarrow> timedelta" where
  "timedelta_days d = round_half_even (d * 86400000000)"

text \<open>\<^verbatim>\<open>timedelta * float\<close>: the exact product, rounded half-even to a microsecond.\<close>

definition timedelta_mul :: "real \<Rightarrow> timedelta \<Rightarrow> timedelta" where
  "timedelta_mul ratio td = round_half_even (ratio * of_int td)"

definition hour :: "datetime \<Rightarrow> nat" where
  "hour t = nat ((t div 3600000000) mod 24)"

text \<open>\<^verbatim>\<open>int(x)\<close> on a float truncates towards zero.\<close>

definition py_int :: "real \<Rightarrow> int" where
  "py_int x = (if 0 \<le> x then \<lfloor>x\<rfloor> else \<lceil>x\<rceil>)"

text \<open>
  \<^verbatim>\<open>randrange(start, stop)\<close> raises \<^verbatim>\<open>ValueError\<close> when the range is empty and
  otherwise returns \<^verbatim>\<open>start + _randbelow(stop - start)\<close>; the argument \<open>d\<close> is the raw
  output of the generator, reduced into the width.
\<close>

definition randrange :: "int \<Rightarrow> int \<Rightarrow> nat \<Rightarrow> error + int" where
  "randrange start stop d =
     (let width = stop - start
      in if 0 < width then Inr (start + int (d mod nat width)) else Inl ValueError)"

section \<open>Sessions\<close>

text \<open>
  The attributes of an \<^verbatim>\<open>Event\<close> object that \<^verbatim>\<open>simulation.py\<close> reads. The class is defined
  in another module; the rest of its state is the field \<open>internal\<close>.
\<close>

record 'i session =
  current_timestamp :: datetime
  is_new_page :: bool
  custom_event :: "string option"
  modal_event :: "string option"
  modal :: bool
  yield_modal :: bool
  internal :: 'i

section \<open>The simulation state\<close>

text \<open>
  The fields of \<^verbatim>\<open>Simulation\<close> as \<^verbatim>\<open>__init__\<close> assigns them. \<open>visits_per_hour\<close> is the
  table \<^verbatim>\<open>config['visits_per_hour']\<close>. \<^verbatim>\<open>cur_sessions\<close> is a list of references to
  \<^verbatim>\<open>Event\<close> objects: \<open>heap\<close> is the object store, a reference is an index into it.
\<close>

record 'i simulation =
  visits_per_hour :: "nat \<Rightarrow> real"
  cur_sessions :: "nat list"
  heap :: "'i session list"
  init_time :: datetime
  cur_time :: datetime
  stop_time :: datetime
  batch_size :: int
  sessions_per_day :: int
  qty_events :: nat
  rate :: real
  growth :: "string option"
  always_forward :: bool
  yield_as_json :: bool

definition get_curr_duration :: "'i simulation \<Rightarrow> timedelta" where
  "get_curr_duration s = cur_time s - init_time s"

definition get_steps_per_hour :: "'i simulation \<Rightarrow> error + real" where
  "get_steps_per_hour s =
     (if batch_size s = 0 then Inl ZeroDivisionError else Inr (3600 / of_int (batch_size s)))"

definition get_rate_per_step :: "'i simulation \<Rightarrow> error + real" where
  "get_rate_per_step s =
     (let hourly_rate = visits_per_hour s (hour (cur_time s))
      in case get_steps_per_hour s of
           Inl e \<Rightarrow> Inl e
         | Inr steps \<Rightarrow> Inr (hourly_rate * of_int (sessions_per_day s) / steps))"

subsection \<open>Construction\<close>

text \<open>
  The arguments of \<^verbatim>\<open>__init__\<close>; an argument with a default that the caller leaves out is
  \<open>None\<close> for \<open>arg_init_time\<close> and \<open>arg_growth\<close>. The default of \<^verbatim>\<open>init_time\<close> is the
  expression \<^verbatim>\<open>datetime.now()\<close> in the \<^verbatim>\<open>def\<close> line: Python evaluates it once, when
  the class body is executed, and every later call receives that value. It is the
  parameter \<open>def_time\<close> of the constructor; \<open>call_time\<close> is the wall clock when the
  constructor is called, which no statement of the body reads.
\<close>

record ctor_args =
  arg_config :: "nat \<Rightarrow> real"
  arg_user_pool_size :: int
  arg_sessions_per_day :: int
  arg_batch_size :: int
  arg_init_time :: "datetime option"
  arg_sim_days :: real
  arg_growth :: "string option"
  arg_always_forward :: bool
  arg_yield_as_json :: bool

definition default_args :: "(nat \<Rightarrow> real) \<Rightarrow> int \<Rightarrow> ctor_args" where
  "default_args cfg pool_size =
     \<lparr>arg_config = cfg, arg_user_pool_size = pool_size, arg_sessions_per_day = 10000,
      arg_batch_size = 10, arg_init_time = None, arg_sim_days = 1, arg_growth = None,
      arg_always_forward = True, arg_yield_as_json = False\<rparr>"

definition Simulation_init ::
  "datetime \<Rightarrow> datetime \<Rightarrow> ctor_args \<Rightarrow> error + 'i simulation" where
  "Simulation_init def_time call_time a =
     (let init = (case arg_init_time a of None \<Rightarrow> def_time | Some t \<Rightarrow> t)
      in if \<not> 0 < arg_sim_days a then Inl AssertionError
         else
           let s = \<lparr>visits_per_hour = arg_config a, cur_sessions = [], heap = [],
                    init_time = init, cur_time = init,
                    stop_time = init + timedelta_days (arg_sim_days a),
                    batch_size = arg_batch_size a,
                    sessions_per_day = arg_sessions_per_day a, qty_events = 0, rate = 0,
                    growth = arg_growth a, always_forward = arg_always_forward a,
                    yield_as_json = arg_yield_as_json a\<rparr>
           in case get_rate_per_step s of
                Inl e \<Rightarrow> Inl e
              | Inr r \<Rightarrow> Inr (s\<lparr>rate := r\<rparr>))"

subsection \<open>Clock advance\<close>

text \<open>
  \<^verbatim>\<open>batch_size * 0.3\<close> is the exact product with three tenths: for a step below \<open>2^50\<close>
  the float product truncates to the same integer.
\<close>

definition wait :: "'i simulation \<Rightarrow> bool \<Rightarrow> nat \<Rightarrow> error + 'i simulation" where
  "wait s fwd d =
     (let min_range = (if fwd then 0 else - py_int (of_int (batch_size s) * 0.3));
          max_range = py_int (of_int (batch_size s) * 0.3)
      in case randrange min_range max_range d of
           Inl e \<Rightarrow> Inl e
         | Inr j \<Rightarrow>
             (let s1 = s\<lparr>cur_time := cur_time s + timedelta_seconds (batch_size s + j)\<rparr>
              in case get_rate_per_step s1 of
                   Inl e \<Rightarrow> Inl e
                 | Inr r \<Rightarrow> Inr (s1\<lparr>rate := r\<rparr>)))"


section \<open>Library functions of the random module\<close>

text \<open>
  Each function takes the value \<open>u\<close> that its call of \<^verbatim>\<open>random()\<close> returns, a float with
  \<open>0 \<le> u < 1\<close>. \<^verbatim>\<open>triangular\<close> reflects the draw when it lies above the mode's position
  \<open>c\<close> and returns \<open>low\<close> when \<open>high = low\<close>; \<^verbatim>\<open>expovariate\<close> is
  \<^verbatim>\<open>-log(1 - random()) / lambd\<close>.
\<close>

definition triangular :: "real \<Rightarrow> real \<Rightarrow> real \<Rightarrow> real \<Rightarrow> real" where
  "triangular low high mode u =
     (if high - low = 0 then low
      else let c = (mode - low) / (high - low)
           in if c < u then high + (low - high) * sqrt ((1 - u) * (1 - c))
              else low + (high - low) * sqrt (u * c))"

definition expovariate :: "real \<Rightarrow> real \<Rightarrow> real" where
  "expovariate lambd u = - ln (1 - u) / lambd"

function bisect_right :: "real list \<Rightarrow> real \<Rightarrow> nat \<Rightarrow> nat \<Rightarrow> nat" where
  "bisect_right a x lo hi =
     (if lo < hi
      then let mid = (lo + hi) div 2
           in if x < a ! mid then bisect_right a x lo mid else bisect_right a x (mid + 1) hi
      else lo)"
  by pat_completeness auto
termination
  by (relation "measure (\<lambda>(a, x, lo, hi). hi - lo)") auto

text \<open>
  \<^verbatim>\<open>choices(population, cum_weights=cw)[0]\<close>: one element, found by bisection of the
  cumulative weights at \<open>u * total\<close>, over the indices below \<open>n - 1\<close>. The lengths must
  agree, \<^verbatim>\<open>cum_weights[-1]\<close> must exist and the total must be positive.
\<close>

definition choices :: "'a list \<Rightarrow> real list \<Rightarrow> real \<Rightarrow> error + 'a" where
  "choices population cum_weights u =
     (let n = length population
      in if length cum_weights \<noteq> n then Inl ValueError
         else if n = 0 then Inl IndexError
         else let total = last cum_weights
              in if total \<le> 0 then Inl ValueError
                 else Inr (population ! bisect_right cum_weights (u * total) 0 (n - 1)))"

text \<open>The float operation \<^verbatim>\<open>x % m\<close>, whose result has the sign of \<open>m\<close>.\<close>

definition py_fmod :: "real \<Rightarrow> real \<Rightarrow> real" where
  "py_fmod x m = x - m * of_int \<lfloor>x / m\<rfloor>"

section \<open>Growth of the session timestamps\<close>

datatype growth_shape = Linear | Exponential | Uniform

text \<open>
  The three branches of \<^verbatim>\<open>randomize_sess_ts\<close>: \<open>select_shape\<close> is the test of the
  \<^verbatim>\<open>if\<close>/\<^verbatim>\<open>elif\<close>/\<^verbatim>\<open>else\<close> chain (\<^verbatim>\<open>in\<close> compares with \<^verbatim>\<open>==\<close>), \<open>shape_ratio\<close> the
  ratio that the selected branch computes.
\<close>

definition select_shape :: "string option \<Rightarrow> growth_shape" where
  "select_shape g =
     (if g \<in> set [Some ''lineal'', Some ''lin'', Some ''linear''] then Linear
      else if g \<in> set [Some ''exp'', Some ''exponential''] then Exponential
      else Uniform)"

fun shape_ratio :: "growth_shape \<Rightarrow> real \<Rightarrow> real" where
  "shape_ratio Linear u = 1 - triangular 0 1 0 u"
| "shape_ratio Exponential u =
     (let ratio = expovariate (1 / 1.5) u in if ratio < 8 then (8 - ratio) / 8 else 1)"
| "shape_ratio Uniform u = u"

definition randomize_sess_ts :: "'i simulation \<Rightarrow> real \<Rightarrow> datetime" where
  "randomize_sess_ts s u =
     (let ratio = shape_ratio (select_shape (growth s)) u
      in init_time s + timedelta_mul ratio (stop_time s - init_time s))"

section \<open>Collaborators\<close>

text \<open>
  The \<^verbatim>\<open>Event\<close> class and the datetime and float formatting of the runtime are outside
  \<^verbatim>\<open>simulation.py\<close>; they are parameters. A session's own randomness is part of its
  \<open>internal\<close> state. The values that \<^verbatim>\<open>asdict\<close> can hold are \<open>pyval\<close>: \<open>PyObject\<close> is an
  object of any other class, with the name of its class.
\<close>

datatype pyval =
    PyNone
  | PyBool bool
  | PyInt int
  | PyFloat real
  | PyStr string
  | PyList "pyval list"
  | PyDict "(string \<times> pyval) list"
  | PyDatetime datetime
  | PyDate int
  | PyObject string

record ('u, 'i) collaborators =
  Event :: "datetime \<Rightarrow> 'u \<Rightarrow> int \<Rightarrow> bool \<Rightarrow> (nat \<Rightarrow> real) \<Rightarrow> 'i session"
  update :: "datetime \<Rightarrow> bool \<Rightarrow> 'i session \<Rightarrow> 'i session"
  is_active :: "'i session \<Rightarrow> bool"
  asdict :: "'i session \<Rightarrow> (string \<times> pyval) list"
  isoformat :: "datetime \<Rightarrow> string"
  date_isoformat :: "int \<Rightarrow> string"
  float_repr :: "real \<Rightarrow> string"

text \<open>
  The random inputs of one iteration of \<^verbatim>\<open>run\<close>: the draw inside \<^verbatim>\<open>choices\<close>, the draw
  and the user of the \<open>n\<close>-th new session, and the generator output behind \<^verbatim>\<open>randrange\<close>.
\<close>

record 'u draws =
  arrival :: real
  ts_draw :: "nat \<Rightarrow> real"
  user_draw :: "nat \<Rightarrow> 'u"
  jitter :: nat

section \<open>Arrivals\<close>

text \<open>The \<^verbatim>\<open>Event(...)\<close> object that the \<open>n\<close>-th pass of the loop constructs.\<close>

definition new_event :: "('u, 'i) collaborators \<Rightarrow> 'u draws \<Rightarrow> 'i simulation \<Rightarrow> nat \<Rightarrow> 'i session" where
  "new_event c dr s n =
     Event c (randomize_sess_ts s (ts_draw dr n)) (user_draw dr n) (batch_size s)
       (always_forward s) (visits_per_hour s)"

definition append_session ::
  "('u, 'i) collaborators \<Rightarrow> 'u draws \<Rightarrow> nat \<Rightarrow> 'i simulation \<Rightarrow> 'i simulation" where
  "append_session c dr n s =
     s\<lparr>heap := heap s @ [new_event c dr s n], cur_sessions := cur_sessions s @ [length (heap s)]\<rparr>"

definition create_sessions ::
  "('u, 'i) collaborators \<Rightarrow> 'i simulation \<Rightarrow> 'u draws \<Rightarrow> error + 'i simulation" where
  "create_sessions c s dr =
     (case choices [1, 0] [py_fmod (rate s) 1, 1] (arrival dr) of
        Inl e \<Rightarrow> Inl e
      | Inr extra \<Rightarrow>
          (let n_users = py_int (rate s) + extra
           in Inr (fold (append_session c dr) [0..<nat n_users] s)))"

text \<open>The number of sessions that a call of \<^verbatim>\<open>create_sessions\<close> appends to the registry.\<close>

definition created :: "('u, 'i) collaborators \<Rightarrow> 'i simulation \<Rightarrow> 'u draws \<Rightarrow> nat" where
  "created c s dr =
     (case create_sessions c s dr of
        Inl e \<Rightarrow> 0
      | Inr s' \<Rightarrow> length (cur_sessions s') - length (cur_sessions s))"

section \<open>Advancing and pruning the registry\<close>

text \<open>\<^verbatim>\<open>list.remove(x)\<close> deletes the first occurrence and raises when there is none.\<close>

definition list_remove :: "nat list \<Rightarrow> nat \<Rightarrow> error + nat list" where
  "list_remove xs x = (if x \<in> set xs then Inr (remove1 x xs) else Inl ValueError)"

text \<open>
  The loop of \<^verbatim>\<open>update_all_sessions\<close> over the snapshot \<^verbatim>\<open>list(self.cur_sessions)\<close>: the
  object behind the reference is updated in place (\<open>advance_session\<close> is the call of
  \<^verbatim>\<open>session.update\<close>), and its reference is removed from the live list when it reports
  inactive.
\<close>

definition advance_session ::
  "('u, 'i) collaborators \<Rightarrow> 'i simulation \<Rightarrow> 'i session \<Rightarrow> 'i session" where
  "advance_session c s obj =
     update c (current_timestamp obj + get_curr_duration s) (always_forward s) obj"

fun update_loop ::
  "('u, 'i) collaborators \<Rightarrow> 'i simulation \<Rightarrow> nat list \<Rightarrow> error + 'i simulation" where
  "update_loop c s [] = Inr s"
| "update_loop c s (r # rs) =
     (let obj' = advance_session c s (heap s ! r);
          s1 = s\<lparr>heap := (heap s)[r := obj']\<rparr>
      in if \<not> is_active c obj'
         then (case list_remove (cur_sessions s1) r of
                 Inl e \<Rightarrow> Inl e
               | Inr l \<Rightarrow> update_loop c (s1\<lparr>cur_sessions := l\<rparr>) rs)
         else update_loop c s1 rs)"

definition update_all_sessions ::
  "('u, 'i) collaborators \<Rightarrow> 'i simulation \<Rightarrow> error + 'i simulation" where
  "update_all_sessions c s = update_loop c s (cur_sessions s)"

section \<open>Serialization\<close>

text \<open>
  \<^verbatim>\<open>type(obj)\<close> as \<^verbatim>\<open>%s\<close> prints it: the class name between \<^verbatim>\<open><class '\<close> and \<^verbatim>\<open>'>\<close>.
\<close>

fun type_name :: "pyval \<Rightarrow> string" where
  "type_name PyNone = ''NoneType''"
| "type_name (PyBool b) = ''bool''"
| "type_name (PyInt i) = ''int''"
| "type_name (PyFloat x) = ''float''"
| "type_name (PyStr t) = ''str''"
| "type_name (PyList vs) = ''list''"
| "type_name (PyDict kvs) = ''dict''"
| "type_name (PyDatetime t) = ''datetime.datetime''"
| "type_name (PyDate d) = ''datetime.date''"
| "type_name (PyObject cls) = cls"

definition type_repr :: "pyval \<Rightarrow> string" where
  "type_repr obj = ''<class '' @ [CHR 0x27] @ type_name obj @ [CHR 0x27] @ ''>''"

fun json_serial :: "('u, 'i) collaborators \<Rightarrow> pyval \<Rightarrow> error + pyval" where
  "json_serial c (PyDatetime t) = Inr (PyStr (isoformat c t))"
| "json_serial c (PyDate d) = Inr (PyStr (date_isoformat c d))"
| "json_serial c obj = Inl (TypeError (''Type '' @ type_repr obj @ '' not serializable''))"

text \<open>
  The encoder of \<^verbatim>\<open>json.dumps\<close> with its default settings. A string is written between
  double quotes with the quote, the backslash and every character outside the printable
  ASCII range escaped; an integer in decimal; a list and a dict with the separators
  \<^verbatim>\<open>", "\<close> and \<^verbatim>\<open>": "\<close>. A value of any other class goes to \<open>other\<close>.
\<close>

definition hex_digit :: "nat \<Rightarrow> char" where
  "hex_digit n = ''0123456789abcdef'' ! (n mod 16)"

definition escape_char :: "char \<Rightarrow> string" where
  "escape_char ch =
     (let n = (of_char ch :: nat)
      in if ch = CHR 0x22 then [CHR 0x5C, CHR 0x22]
         else if ch = CHR 0x5C then [CHR 0x5C, CHR 0x5C]
         else if n = 10 then [CHR 0x5C, CHR ''n'']
         else if n = 13 then [CHR 0x5C, CHR ''r'']
         else if n = 9 then [CHR 0x5C, CHR ''t'']
         else if n = 8 then [CHR 0x5C, CHR ''b'']
         else if n = 12 then [CHR 0x5C, CHR ''f'']
         else if n < 32 \<or> 126 < n
           then [CHR 0x5C, CHR ''u'', CHR ''0'', CHR ''0'', hex_digit (n div 16), hex_digit n]
         else [ch])"

definition encode_basestring_ascii :: "string \<Rightarrow> string" where
  "encode_basestring_ascii t = [CHR 0x22] @ concat (map escape_char t) @ [CHR 0x22]"

fun nat_repr :: "nat \<Rightarrow> string" where
  "nat_repr n =
     (if n < 10 then [''0123456789'' ! n] else nat_repr (n div 10) @ [''0123456789'' ! (n mod 10)])"

definition int_repr :: "int \<Rightarrow> string" where
  "int_repr i = (if i < 0 then ''-'' @ nat_repr (nat (- i)) else nat_repr (nat i))"

fun join :: "string \<Rightarrow> string list \<Rightarrow> string" where
  "join sep [] = []"
| "join sep [t] = t"
| "join sep (t # ts) = t @ sep @ join sep ts"

text \<open>The results of a left-to-right evaluation: the first exception ends it.\<close>

fun sequence :: "(error + 'a) list \<Rightarrow> error + 'a list" where
  "sequence [] = Inr []"
| "sequence (Inl e # rs) = Inl e"
| "sequence (Inr x # rs) = (case sequence rs of Inl e \<Rightarrow> Inl e | Inr xs \<Rightarrow> Inr (x # xs))"

fun encode :: "(real \<Rightarrow> string) \<Rightarrow> (pyval \<Rightarrow> error + string) \<Rightarrow> pyval \<Rightarrow> error + string" where
  "encode fr other PyNone = Inr ''null''"
| "encode fr other (PyBool b) = Inr (if b then ''true'' else ''false'')"
| "encode fr other (PyInt i) = Inr (int_repr i)"
| "encode fr other (PyFloat x) = Inr (fr x)"
| "encode fr other (PyStr t) = Inr (encode_basestring_ascii t)"
| "encode fr other (PyList vs) =
     (case sequence (map (encode fr other) vs) of
        Inl e \<Rightarrow> Inl e
      | Inr ts \<Rightarrow> Inr (''['' @ join '', '' ts @ '']''))"
| "encode fr other (PyDict kvs) =
     (case sequence (map (\<lambda>kv. case encode fr other (snd kv) of
                                  Inl e \<Rightarrow> Inl e
                                | Inr t \<Rightarrow> Inr (encode_basestring_ascii (fst kv) @ '': '' @ t)) kvs) of
        Inl e \<Rightarrow> Inl e
      | Inr ts \<Rightarrow> Inr (''{'' @ join '', '' ts @ ''}''))"
| "encode fr other obj = other obj"

text \<open>
  Without a \<^verbatim>\<open>default\<close> hook the encoder raises its own \<^verbatim>\<open>TypeError\<close> for a value it does
  not know, with the class name without its module. With the hook, the value that the hook returns is encoded in its place;
  \<^verbatim>\<open>json_serial\<close> returns a string or raises, so the hook is not reached a second time.
\<close>

definition short_name :: "string \<Rightarrow> string" where
  "short_name qualified = rev (takeWhile (\<lambda>ch. ch \<noteq> CHR ''.'') (rev qualified))"

definition no_default :: "pyval \<Rightarrow> error + string" where
  "no_default obj =
     Inl (TypeError (''Object of type '' @ short_name (type_name obj) @
                     '' is not JSON serializable''))"

definition json_dumps :: "(real \<Rightarrow> string) \<Rightarrow> pyval \<Rightarrow> error + string" where
  "json_dumps fr obj = encode fr no_default obj"

definition json_dumps_default ::
  "(real \<Rightarrow> string) \<Rightarrow> (pyval \<Rightarrow> error + pyval) \<Rightarrow> pyval \<Rightarrow> error + string" where
  "json_dumps_default fr dflt obj =
     encode fr (\<lambda>v. case dflt v of Inl e \<Rightarrow> Inl e | Inr v' \<Rightarrow> json_dumps fr v') obj"

section \<open>Emission\<close>

datatype emitted = Text string | Record "(string \<times> pyval) list"

definition yield_event ::
  "('u, 'i) collaborators \<Rightarrow> 'i simulation \<Rightarrow> 'i session \<Rightarrow> error + emitted" where
  "yield_event c s obj =
     (if yield_as_json s
      then (case json_dumps_default (float_repr c) (json_serial c) (PyDict (asdict c obj)) of
              Inl e \<Rightarrow> Inl e
            | Inr t \<Rightarrow> Inr (Text t))
      else Inr (Record (asdict c obj)))"

text \<open>
  The body of the \<^verbatim>\<open>for\<close> loop of \<^verbatim>\<open>run\<close> for one session: \<open>None\<close> when no
  \<^verbatim>\<open>yield\<close> is reached, otherwise the result of \<^verbatim>\<open>yield_event\<close>. \<^verbatim>\<open>^\<close> on two booleans
  is their inequality.
\<close>

definition emit_one ::
  "('u, 'i) collaborators \<Rightarrow> 'i simulation \<Rightarrow> 'i session \<Rightarrow> (error + emitted) option" where
  "emit_one c s obj =
     (if is_new_page obj then Some (yield_event c s obj)
      else if \<not> is_new_page obj \<and> custom_event obj \<noteq> Some ''pageview''
      then (if modal_event obj \<noteq> custom_event obj then Some (yield_event c s obj)
            else if \<not> (modal obj \<noteq> yield_modal obj) then Some (yield_event c s obj)
            else None)
      else None)"

text \<open>
  The \<^verbatim>\<open>for\<close> loop: the events yielded so far, and the exception that ended the loop, if
  one did.
\<close>

fun emit_loop ::
  "('u, 'i) collaborators \<Rightarrow> 'i simulation \<Rightarrow> nat list \<Rightarrow> emitted list \<times> error option" where
  "emit_loop c s [] = ([], None)"
| "emit_loop c s (r # rs) =
     (case emit_one c s (heap s ! r) of
        None \<Rightarrow> emit_loop c s rs
      | Some (Inl e) \<Rightarrow> ([], Some e)
      | Some (Inr ev) \<Rightarrow> (case emit_loop c s rs of (evs, err) \<Rightarrow> (ev # evs, err)))"

section \<open>The run loop\<close>

text \<open>
  One iteration of the \<^verbatim>\<open>while\<close> loop: the events it yields, and the state after it or
  the exception that ended it.
\<close>

definition run_iteration ::
  "('u, 'i) collaborators \<Rightarrow> 'i simulation \<Rightarrow> 'u draws \<Rightarrow> emitted list \<times> (error + 'i simulation)" where
  "run_iteration c s dr =
     (case update_all_sessions c s of
        Inl e \<Rightarrow> ([], Inl e)
      | Inr s1 \<Rightarrow>
          (case create_sessions c s1 dr of
             Inl e \<Rightarrow> ([], Inl e)
           | Inr s2 \<Rightarrow>
               (case wait s2 (always_forward s2) (jitter dr) of
                  Inl e \<Rightarrow> ([], Inl e)
                | Inr s3 \<Rightarrow>
                    (case emit_loop c s3 (cur_sessions s3) of
                       (evs, None) \<Rightarrow> (evs, Inr s3)
                     | (evs, Some e) \<Rightarrow> (evs, Inl e)))))"

text \<open>
  \<^verbatim>\<open>run\<close>: the wall clock decides how many iterations there are; the list holds the
  random inputs of each of them.
\<close>

fun run ::
  "('u, 'i) collaborators \<Rightarrow> 'i simulation \<Rightarrow> 'u draws list \<Rightarrow> emitted list \<times> (error + 'i simulation)" where
  "run c s [] = ([], Inr s)"
| "run c s (dr # drs) =
     (case run_iteration c s dr of
        (evs, Inl e) \<Rightarrow> (evs, Inl e)
      | (evs, Inr s') \<Rightarrow> (case run c s' drs of (evs', res) \<Rightarrow> (evs @ evs', res)))"

text \<open>
  The references of the registry are those of distinct live objects: \<^verbatim>\<open>create_sessions\<close>
  appends a reference to a new object each time, and nothing else adds to the list.
\<close>

definition registry_ok :: "'i simulation \<Rightarrow> bool" where
  "registry_ok s = (distinct (cur_sessions s) \<and> list_all (\<lambda>r. r < length (heap s)) (cur_sessions s))"

section \<open>Notions of the specification\<close>


text \<open>
  The selection of the growth shape in the words of the specification: the mode string is
  compared without regard to case (\<open>lower\<close> is \<^verbatim>\<open>str.lower\<close> on ASCII letters).
\<close>

definition lower :: "string \<Rightarrow> string" where
  "lower t =
     map (\<lambda>ch. if 65 \<le> (of_char ch :: nat) \<and> (of_char ch :: nat) \<le> 90
               then char_of ((of_char ch :: nat) + 32) else ch) t"

definition select_shape_as_specified :: "string option \<Rightarrow> growth_shape" where
  "select_shape_as_specified g =
     (case g of
        None \<Rightarrow> Uniform
      | Some m \<Rightarrow>
          if lower m \<in> set [''lineal'', ''lin'', ''linear''] then Linear
          else if lower m \<in> set [''exp'', ''exponential''] then Exponential
          else Uniform)"




section \<open>Example inputs\<close>

text \<open>
  Constructor arguments with a flat rate curve, a pool of five users and the defaults of
  \<^verbatim>\<open>__init__\<close>, for a given step size and direction flag; and the state that the
  constructor builds from them when the default start time is \<open>0\<close>.
\<close>

definition example_args :: "int \<Rightarrow> bool \<Rightarrow> ctor_args" where
  "example_args b fwd =
     (default_args (\<lambda>h. 1 / 24) 5)\<lparr>arg_batch_size := b, arg_always_forward := fwd\<rparr>"

definition example_sim :: "int \<Rightarrow> bool \<Rightarrow> nat simulation" where
  "example_sim b fwd =
     \<lparr>visits_per_hour = (\<lambda>h. 1 / 24), cur_sessions = [], heap = [], init_time = 0,
      cur_time = 0, stop_time = 86400000000, batch_size = b, sessions_per_day = 10000,
      qty_events = 0, rate = 1 / 24 * 10000 / (3600 / of_int b), growth = None,
      always_forward = fwd, yield_as_json = False\<rparr>"

text \<open>
  A stand-in for the \<^verbatim>\<open>Event\<close> class: a session holds the number of steps it has left, a
  new one has two, \<^verbatim>\<open>update\<close> sets the timestamp and takes one step, and a session is
  active while steps are left. Its record has a timestamp and a page name.
\<close>

definition example_collaborators :: "(unit, nat) collaborators" where
  "example_collaborators =
     \<lparr>Event = (\<lambda>ts u b fwd cfg.
        \<lparr>current_timestamp = ts, is_new_page = True, custom_event = None,
         modal_event = Some ''signup'', modal = False, yield_modal = False, internal = 2\<rparr>),
      update = (\<lambda>ts fwd obj. obj\<lparr>current_timestamp := ts, internal := internal obj - 1\<rparr>),
      is_active = (\<lambda>obj. 0 < internal obj),
      asdict = (\<lambda>obj. [(''event_timestamp'', PyDatetime (current_timestamp obj)),
                        (''page'', PyStr ''home'')]),
      isoformat = (\<lambda>t. ''T'' @ int_repr t),
      date_isoformat = (\<lambda>d. ''D'' @ int_repr d),
      float_repr = (\<lambda>x. int_repr \<lfloor>x\<rfloor> @ ''.0'')\<rparr>"


definition example_draws :: "real \<Rightarrow> nat \<Rightarrow> unit draws" where
  "example_draws u d = \<lparr>arrival = u, ts_draw = (\<lambda>n. 0), user_draw = (\<lambda>n. ()), jitter = d\<rparr>"


section \<open>Arithmetic of the runtime functions\<close>

lemma floor_03: "\<lfloor>of_int b * 0.3 :: real\<rfloor> = (3 * b) div 10"
proof -
  have e: "(of_int b * 0.3 :: real) = of_int (3 * b) / of_int 10" by simp
  show ?thesis unfolding e by (rule floor_divide_of_int_eq)
qed

lemma py_int_03: "0 \<le> b \<Longrightarrow> py_int (of_int b * 0.3) = (3 * b) div 10"
proof -
  assume b: "0 \<le> b"
  note floor_03[of b]
  moreover have "(0::real) \<le> of_int b * 0.3" using b by simp
  ultimately show ?thesis unfolding py_int_def by (simp only: if_True)
qed

lemma py_int_03_neg: "b \<le> 0 \<Longrightarrow> py_int (of_int b * 0.3) = - ((3 * (- b)) div 10)"
proof -
  assume b: "b \<le> 0"
  have e: "(of_int b * 0.3 :: real) = - (of_int (3 * (- b)) / of_int 10)" by simp
  have "\<lceil>of_int b * 0.3 :: real\<rceil> = - ((3 * (- b)) div 10)"
    unfolding e ceiling_minus by (simp only: floor_divide_of_int_eq minus_minus)
  moreover have "(of_int b * 0.3 :: real) \<le> 0" using b by (simp add: mult_le_0_iff)
  ultimately show ?thesis unfolding py_int_def using b
    by (cases "b = 0") (simp_all only: if_True if_False, auto)
qed



lemma randrange_empty: "b \<le> a \<Longrightarrow> randrange a b d = Inl ValueError"
  by (simp add: randrange_def)

lemma round_half_even_of_int: "round_half_even (of_int n) = n"
  by (simp add: round_half_even_def)

lemma timedelta_days_1: "timedelta_days 1 = 86400000000"
  using round_half_even_of_int[of 86400000000] by (simp add: timedelta_days_def)

section \<open>The rate and the clock\<close>

lemma get_rate_ok:
  "batch_size s \<noteq> 0 \<Longrightarrow> get_rate_per_step s =
     Inr (visits_per_hour s (hour (cur_time s)) * of_int (sessions_per_day s) / (3600 / of_int (batch_size s)))"
  by (simp add: get_rate_per_step_def get_steps_per_hour_def)

lemma example_sim_constructed:
  "b \<noteq> 0 \<Longrightarrow> Simulation_init 0 t (example_args b fwd) = Inr (example_sim b fwd)"
  by (simp add: Simulation_init_def example_args_def default_args_def example_sim_def
      get_rate_ok timedelta_days_1)


lemma wait_fails:
  assumes "batch_size s \<le> 3" shows "wait s fwd d = Inl ValueError"
proof -
  let ?m = "py_int (of_int (batch_size s) * 0.3)"
  have "?m \<le> 0"
  proof (cases "0 \<le> batch_size s")
    case True
    then have "?m = (3 * batch_size s) div 10" by (rule py_int_03)
    then show ?thesis using assms by simp
  next
    case False
    then have "?m = - ((3 * (- batch_size s)) div 10)" by (intro py_int_03_neg) simp
    then show ?thesis using False by simp
  qed
  then have "randrange (if fwd then 0 else - ?m) ?m d = Inl ValueError"
    by (intro randrange_empty) simp
  then show ?thesis unfolding wait_def Let_def by (simp only: sum.case)
qed










text \<open>
  Claim C8. The claim has \<open>init_time\<close> default to the time of construction. Two
  constructions without a start time, at the wall-clock times \<open>200\<close> and \<open>300\<close>, of a class
  that was defined at time \<open>100\<close>, both have the \<open>init_time\<close> \<open>100\<close>.
\<close>

theorem default_init_time_fixed_at_definition:
  "map_sum id init_time (Simulation_init 100 200 (example_args 10 True) :: error + nat simulation)
     = Inr 100 \<and>
   map_sum id init_time (Simulation_init 100 300 (example_args 10 True) :: error + nat simulation)
     = Inr 100"
  by (simp add: Simulation_init_def example_args_def default_args_def get_rate_ok)

section \<open>Arrivals, the registry and the run loop\<close>

lemma bisect_right_two:
  "bisect_right [p, q] x 0 (Suc 0) = (if x < p then 0 else 1)"
proof -
  have a: "bisect_right [p, q] x 0 0 = 0" by (subst bisect_right.simps) simp
  have b: "bisect_right [p, q] x (Suc 0) (Suc 0) = Suc 0" by (subst bisect_right.simps) simp
  show ?thesis by (subst bisect_right.simps) (simp add: a b)
qed

lemma choices_two:
  "choices [a, b] [p, 1] u = Inr (if u < p then a else b)"
  by (simp add: choices_def bisect_right_two)

lemma py_fmod_1: "py_fmod x 1 = frac x"
  by (simp add: py_fmod_def frac_def)

lemma create_sessions_eq:
  "create_sessions c s dr =
     Inr (fold (append_session c dr)
            [0..<nat (py_int (rate s) + (if arrival dr < frac (rate s) then 1 else 0))] s)"
  by (simp add: create_sessions_def choices_two py_fmod_1 Let_def)

lemma append_session_fields:
  "cur_sessions (append_session c dr n s) = cur_sessions s @ [length (heap s)]"
  "heap (append_session c dr n s) = heap s @ [new_event c dr s n]"
  "batch_size (append_session c dr n s) = batch_size s"
  "always_forward (append_session c dr n s) = always_forward s"
  "yield_as_json (append_session c dr n s) = yield_as_json s"
  "init_time (append_session c dr n s) = init_time s"
  "cur_time (append_session c dr n s) = cur_time s"
  "stop_time (append_session c dr n s) = stop_time s"
  "new_event c dr (append_session c dr n s) = new_event c dr s"
  by (simp_all add: append_session_def new_event_def randomize_sess_ts_def Let_def fun_eq_iff)

lemma fold_append_session:
  "cur_sessions (fold (append_session c dr) ns s) =
      cur_sessions s @ [length (heap s)..<length (heap s) + length ns] \<and>
   heap (fold (append_session c dr) ns s) = heap s @ map (new_event c dr s) ns \<and>
   batch_size (fold (append_session c dr) ns s) = batch_size s \<and>
   always_forward (fold (append_session c dr) ns s) = always_forward s \<and>
   yield_as_json (fold (append_session c dr) ns s) = yield_as_json s \<and>
   init_time (fold (append_session c dr) ns s) = init_time s \<and>
   cur_time (fold (append_session c dr) ns s) = cur_time s \<and>
   stop_time (fold (append_session c dr) ns s) = stop_time s"
proof (induction ns arbitrary: s)
  case Nil
  then show ?case by simp
next
  case (Cons n ns)
  let ?s1 = "append_session c dr n s"
  let ?l = "length (heap s)"
  note ih = Cons.IH[of ?s1]
  have l1: "length (heap ?s1) = Suc ?l" by (simp add: append_session_fields)
  have u: "[?l..<?l + length (n # ns)] = ?l # [Suc ?l..<Suc ?l + length ns]"
    by (simp add: upt_conv_Cons del: upt_Suc)
  have f: "fold (append_session c dr) (n # ns) s = fold (append_session c dr) ns ?s1" by simp
  have "cur_sessions (fold (append_session c dr) ns ?s1) =
      cur_sessions s @ [?l..<?l + length (n # ns)]"
    using ih unfolding l1 u by (simp add: append_session_fields)
  moreover have "heap (fold (append_session c dr) ns ?s1) = heap s @ map (new_event c dr s) (n # ns)"
    using ih by (simp add: append_session_fields)
  ultimately show ?case unfolding f using ih by (simp add: append_session_fields)
qed

lemma create_sessions_ok:
  "\<exists>s'. create_sessions c s dr = Inr s' \<and> batch_size s' = batch_size s \<and>
        always_forward s' = always_forward s \<and>
        cur_sessions s' = cur_sessions s @
          [length (heap s)..<length (heap s) +
              nat (py_int (rate s) + (if arrival dr < frac (rate s) then 1 else 0))] \<and>
        length (heap s') = length (heap s) +
              nat (py_int (rate s) + (if arrival dr < frac (rate s) then 1 else 0))"
  unfolding create_sessions_eq using fold_append_session[of c dr _ s] by simp

lemma update_loop_error: "update_loop c s rs = Inl e \<Longrightarrow> e = ValueError"
proof (induction rs arbitrary: s)
  case Nil
  then show ?case by simp
next
  case (Cons r rs)
  then show ?case
    by (auto simp: Let_def list_remove_def split: if_splits sum.splits)
qed

lemma update_loop_fields:
  "update_loop c s rs = Inr s' \<Longrightarrow>
     batch_size s' = batch_size s \<and> always_forward s' = always_forward s \<and>
     length (heap s') = length (heap s)"
proof (induction rs arbitrary: s)
  case Nil
  then show ?case by simp
next
  case (Cons r rs)
  then show ?case
    by (fastforce simp: Let_def list_remove_def split: if_splits sum.splits)
qed

lemma run_iteration_small_step:
  assumes "batch_size s \<le> 3"
  shows "run_iteration c s dr = ([], Inl ValueError)"
proof (cases "update_all_sessions c s")
  case (Inl e)
  then have "e = ValueError" unfolding update_all_sessions_def by (rule update_loop_error)
  with Inl show ?thesis by (simp add: run_iteration_def)
next
  case (Inr s1)
  then have b1: "batch_size s1 = batch_size s"
    unfolding update_all_sessions_def by (simp add: update_loop_fields)
  obtain s2 where s2: "create_sessions c s1 dr = Inr s2" "batch_size s2 = batch_size s1"
    using create_sessions_ok[of c s1 dr] by blast
  have "wait s2 (always_forward s2) (jitter dr) = Inl ValueError"
    using assms b1 s2(2) by (intro wait_fails) simp
  then show ?thesis by (simp add: run_iteration_def Inr s2(1))
qed

text \<open>
  Claim C10. With a step size of 1, 2 or 3 seconds every call of \<^verbatim>\<open>wait\<close> raises
  \<^verbatim>\<open>ValueError\<close>, for both values of the direction flag, and \<^verbatim>\<open>run\<close> raises it in its
  first iteration without having yielded an event. The constructor accepts these step
  sizes, and the simulation it returns behaves so.
\<close>

theorem small_step_wait_fails:
  "(batch_size s \<in> {1, 2, 3} \<longrightarrow>
      wait s fwd d = Inl ValueError \<and> run c s (dr # drs) = ([], Inl ValueError)) \<and>
   (0 < arg_sim_days a \<and> arg_batch_size a \<in> {1, 2, 3} \<longrightarrow>
      (\<exists>s0 :: 'i simulation. Simulation_init t0 t a = Inr s0 \<and> batch_size s0 = arg_batch_size a \<and>
         wait s0 fwd d = Inl ValueError \<and> run c s0 (dr # drs) = ([], Inl ValueError)))"
proof (intro conjI impI)
  assume "batch_size s \<in> {1, 2, 3}"
  then have b: "batch_size s \<le> 3" by auto
  show "wait s fwd d = Inl ValueError" by (rule wait_fails[OF b])
  show "run c s (dr # drs) = ([], Inl ValueError)"
    by (simp add: run_iteration_small_step[OF b])
next
  assume a: "0 < arg_sim_days a \<and> arg_batch_size a \<in> {1, 2, 3}"
  then have "arg_batch_size a \<noteq> 0" by auto
  with a obtain s0 :: "'i simulation" where
    s0: "Simulation_init t0 t a = Inr s0" "batch_size s0 = arg_batch_size a"
    by (simp add: Simulation_init_def get_rate_per_step_def get_steps_per_hour_def Let_def)
  have b: "batch_size s0 \<le> 3" using a s0(2) by auto
  have "wait s0 fwd d = Inl ValueError" by (rule wait_fails[OF b])
  moreover have "run c s0 (dr # drs) = ([], Inl ValueError)"
    by (simp add: run_iteration_small_step[OF b])
  ultimately show "\<exists>s0 :: 'i simulation. Simulation_init t0 t a = Inr s0 \<and>
      batch_size s0 = arg_batch_size a \<and>
      wait s0 fwd d = Inl ValueError \<and> run c s0 (dr # drs) = ([], Inl ValueError)"
    using s0 by blast
qed

theorem small_step_wait_fails_witness:
  "batch_size (example_sim 3 False) \<in> {1, 2, 3} \<and>
   0 < arg_sim_days (example_args 3 False) \<and> arg_batch_size (example_args 3 False) \<in> {1, 2, 3} \<and>
   Simulation_init 0 0 (example_args 3 False) = Inr (example_sim 3 False) \<and>
   wait (example_sim 3 False) False 5 = Inl ValueError \<and>
   wait (example_sim 3 False) True 5 = Inl ValueError \<and>
   run example_collaborators (example_sim 3 False) (example_draws 0 5 # []) = ([], Inl ValueError)"
proof -
  have h: "batch_size (example_sim 3 False) \<in> {1, 2, 3}" by (simp add: example_sim_def)
  have g: "0 < arg_sim_days (example_args 3 False)" "arg_batch_size (example_args 3 False) \<in> {1, 2, 3}"
    by (simp_all add: example_args_def default_args_def)
  have i: "Simulation_init 0 0 (example_args 3 False) = Inr (example_sim 3 False)"
    by (rule example_sim_constructed) simp
  show ?thesis
    using h g i
      small_step_wait_fails[of "example_sim 3 False" False 5 example_collaborators
        "example_draws 0 5" "[]" "example_args 3 False" 0 0]
      small_step_wait_fails[of "example_sim 3 False" True 5 example_collaborators
        "example_draws 0 5" "[]" "example_args 3 False" 0 0]
    by simp
qed









section \<open>Emission policy and growth selection\<close>







lemma lower_names:
  "lower ''lineal'' = ''lineal''" "lower ''lin'' = ''lin''" "lower ''linear'' = ''linear''"
  "lower ''exp'' = ''exp''" "lower ''exponential'' = ''exponential''"
  by code_simp+

text \<open>
  Claim C5, as amended. The growth mode is compared as it is written: exactly the strings
  \<^verbatim>\<open>lineal\<close>, \<^verbatim>\<open>lin\<close> and \<^verbatim>\<open>linear\<close> select the linear shape, exactly \<^verbatim>\<open>exp\<close> and
  \<^verbatim>\<open>exponential\<close> the exponential shape. On a string in lower case the selection is the
  one of the specification; a string with an upper-case letter, like every other string
  and an absent mode, selects the uniform shape.
\<close>

theorem growth_selection_case_sensitive:
  "select_shape None = Uniform \<and>
   (lower m = m \<longrightarrow> select_shape (Some m) = select_shape_as_specified (Some m)) \<and>
   (lower m \<noteq> m \<longrightarrow> select_shape (Some m) = Uniform) \<and>
   (select_shape g = Linear \<longleftrightarrow> g \<in> {Some ''lineal'', Some ''lin'', Some ''linear''}) \<and>
   (select_shape g = Exponential \<longleftrightarrow> g \<in> {Some ''exp'', Some ''exponential''})"
proof (intro conjI impI)
  show "select_shape None = Uniform" by (simp add: select_shape_def)
next
  assume "lower m = m"
  then show "select_shape (Some m) = select_shape_as_specified (Some m)"
    by (simp add: select_shape_def select_shape_as_specified_def)
next
  assume a: "lower m \<noteq> m"
  have "m \<notin> {''lineal'', ''lin'', ''linear'', ''exp'', ''exponential''}"
    using a lower_names by auto
  then show "select_shape (Some m) = Uniform" by (simp add: select_shape_def)
next
  show "select_shape g = Linear \<longleftrightarrow> g \<in> {Some ''lineal'', Some ''lin'', Some ''linear''}"
    by (simp add: select_shape_def)
next
  show "select_shape g = Exponential \<longleftrightarrow> g \<in> {Some ''exp'', Some ''exponential''}"
    by (simp add: select_shape_def)
qed

theorem growth_selection_case_sensitive_witness:
  "lower ''exp'' = ''exp'' \<and> select_shape (Some ''exp'') = Exponential \<and>
   select_shape_as_specified (Some ''exp'') = Exponential \<and>
   lower ''Lin'' \<noteq> ''Lin'' \<and> select_shape (Some ''Lin'') = Uniform \<and>
   select_shape (Some ''linear'') = Linear \<and> select_shape (Some ''weekly'') = Uniform"
proof -
  have l: "lower ''exp'' = ''exp''" "lower ''Lin'' \<noteq> ''Lin''" "lower ''weekly'' = ''weekly''"
    by code_simp+
  have "select_shape_as_specified (Some ''exp'') = Exponential"
    "select_shape_as_specified (Some ''weekly'') = Uniform"
    by (simp_all add: select_shape_as_specified_def l)
  then show ?thesis
    using l growth_selection_case_sensitive[of "''exp''" "Some ''exp''"]
      growth_selection_case_sensitive[of "''Lin''" "Some ''linear''"]
      growth_selection_case_sensitive[of "''weekly''" "Some ''weekly''"]
    by simp
qed

text \<open>
  The claim C5 as it is written selects the linear shape for any casing of the name. The
  mode \<^verbatim>\<open>LINEAR\<close> selects the uniform shape.
\<close>

theorem uppercase_mode_counterexample:
  "lower ''LINEAR'' = ''linear'' \<and> select_shape_as_specified (Some ''LINEAR'') = Linear \<and>
   select_shape (Some ''LINEAR'') = Uniform"
proof -
  have l: "lower ''LINEAR'' = ''linear''" by code_simp
  show ?thesis by (simp add: l select_shape_as_specified_def select_shape_def)
qed

section \<open>Session timestamps\<close>

lemma round_half_even_bounds: "\<lfloor>x\<rfloor> \<le> round_half_even x \<and> round_half_even x \<le> \<lceil>x\<rceil>"
proof -
  have "x - of_int \<lfloor>x\<rfloor> > 0 \<Longrightarrow> \<lfloor>x\<rfloor> + 1 \<le> \<lceil>x\<rceil>"
    by (metis add.commute ceiling_altdef diff_gt_0_iff_gt less_irrefl order_refl)
  moreover have "\<lfloor>x\<rfloor> \<le> \<lceil>x\<rceil>" by (rule floor_le_ceiling)
  ultimately show ?thesis
    unfolding round_half_even_def Let_def by (auto split: if_splits)
qed

lemma timedelta_mul_bounds:
  assumes "0 \<le> r" "r \<le> 1" "0 \<le> td"
  shows "0 \<le> timedelta_mul r td \<and> timedelta_mul r td \<le> td"
proof -
  let ?x = "r * of_int td"
  have x0: "0 \<le> ?x" using assms by simp
  have x1: "?x \<le> of_int td" using assms by (simp add: mult_left_le_one_le)
  have "0 \<le> \<lfloor>?x\<rfloor>" using x0 by simp
  moreover have "\<lceil>?x\<rceil> \<le> td" using x1 by (simp add: ceiling_le_iff)
  ultimately show ?thesis
    unfolding timedelta_mul_def using round_half_even_bounds[of ?x] by linarith
qed

lemma triangular_010: "0 \<le> u \<Longrightarrow> triangular 0 1 0 u = 1 - sqrt (1 - u)"
  by (simp add: triangular_def)

lemma expovariate_nonneg:
  assumes "0 \<le> u" "u < 1" "0 < lambd" shows "0 \<le> expovariate lambd u"
proof -
  have "ln (1 - u) \<le> 0" using assms by (simp add: ln_le_zero_iff)
  then show ?thesis using assms unfolding expovariate_def by (simp add: field_simps)
qed

lemma shape_ratio_bounds:
  assumes "0 \<le> u" "u < 1"
  shows "0 \<le> shape_ratio sh u \<and> shape_ratio sh u \<le> 1"
proof (cases sh)
  case Linear
  have "sqrt (1 - u) \<le> 1" using assms by simp
  moreover have "0 \<le> sqrt (1 - u)" using assms by simp
  ultimately show ?thesis using Linear assms by (simp add: triangular_010)
next
  case Exponential
  have "0 \<le> expovariate (1 / 1.5) u" using assms by (intro expovariate_nonneg) simp_all
  then show ?thesis using Exponential by (simp add: Let_def)
next
  case Uniform
  then show ?thesis using assms by simp
qed

lemma constructed_horizon:
  "Simulation_init t0 t a = Inr s \<Longrightarrow> init_time s \<le> stop_time s \<and> cur_time s = init_time s \<and> registry_ok s"
proof -
  assume a: "Simulation_init t0 t a = Inr s"
  then have pos: "0 < arg_sim_days a"
    by (auto simp: Simulation_init_def Let_def split: if_splits)
  then have "0 \<le> \<lfloor>arg_sim_days a * 86400000000\<rfloor>" by simp
  then have "0 \<le> timedelta_days (arg_sim_days a)"
    unfolding timedelta_days_def using round_half_even_bounds[of "arg_sim_days a * 86400000000"]
    by linarith
  then show ?thesis using a pos
    by (auto simp: Simulation_init_def Let_def registry_ok_def split: sum.splits)
qed

text \<open>
  Claim C3. For every growth mode and every draw \<open>u\<close> of \<^verbatim>\<open>random()\<close>, the timestamp of
  \<^verbatim>\<open>randomize_sess_ts\<close> is \<open>init_time + r * (stop_time - init_time)\<close> for a ratio \<open>r\<close>
  between 0 and 1 (the product is the one of \<^verbatim>\<open>timedelta\<close>, rounded to a microsecond), and
  lies between \<open>init_time\<close> and \<open>stop_time\<close>, both included. In the exponential mode
  \<open>r = (8 - x) / 8\<close> when the exponential draw \<open>x\<close> of rate \<open>1 / 1.5\<close> is below 8, and 1
  otherwise. The horizon does not end before it starts in any state that the constructor
  returns.
\<close>

theorem session_timestamp_in_horizon:
  assumes "init_time s \<le> stop_time s" "0 \<le> u" "u < 1"
  shows "\<exists>r. 0 \<le> r \<and> r \<le> 1 \<and>
           randomize_sess_ts s u = init_time s + timedelta_mul r (stop_time s - init_time s) \<and>
           init_time s \<le> randomize_sess_ts s u \<and> randomize_sess_ts s u \<le> stop_time s \<and>
           (select_shape (growth s) = Exponential \<longrightarrow>
              r = (if expovariate (1 / 1.5) u < 8 then (8 - expovariate (1 / 1.5) u) / 8 else 1)) \<and>
           (select_shape (growth s) = Linear \<longrightarrow> r = 1 - triangular 0 1 0 u) \<and>
           (select_shape (growth s) = Uniform \<longrightarrow> r = u)"
proof -
  let ?r = "shape_ratio (select_shape (growth s)) u"
  have b: "0 \<le> ?r" "?r \<le> 1" using shape_ratio_bounds[OF assms(2,3)] by simp_all
  have "0 \<le> stop_time s - init_time s" using assms(1) by simp
  from timedelta_mul_bounds[OF b this]
  have m: "0 \<le> timedelta_mul ?r (stop_time s - init_time s)"
    "timedelta_mul ?r (stop_time s - init_time s) \<le> stop_time s - init_time s" by simp_all
  have e: "randomize_sess_ts s u = init_time s + timedelta_mul ?r (stop_time s - init_time s)"
    by (simp add: randomize_sess_ts_def)
  show ?thesis
    using b m e by (intro exI[of _ ?r]) (simp add: Let_def)
qed

theorem session_timestamp_in_horizon_witness:
  "init_time ((example_sim 10 True)\<lparr>growth := Some ''exp''\<rparr>) \<le>
     stop_time ((example_sim 10 True)\<lparr>growth := Some ''exp''\<rparr>) \<and>
   randomize_sess_ts ((example_sim 10 True)\<lparr>growth := Some ''exp''\<rparr>) 0 = 86400000000 \<and>
   randomize_sess_ts ((example_sim 10 True)\<lparr>growth := Some ''linear''\<rparr>) (3 / 4) = 43200000000 \<and>
   randomize_sess_ts (example_sim 10 True) (1 / 4) = 21600000000"
proof -
  let ?s = "(example_sim 10 True)\<lparr>growth := Some ''exp''\<rparr>"
  let ?l = "(example_sim 10 True)\<lparr>growth := Some ''linear''\<rparr>"
  have h: "init_time ?s \<le> stop_time ?s" "init_time ?l \<le> stop_time ?l"
    "init_time (example_sim 10 True) \<le> stop_time (example_sim 10 True)"
    by (simp_all add: example_sim_def)
  have sq: "sqrt (1 / 4) = 1 / 2" by (simp add: real_sqrt_divide)
  have r1: "timedelta_mul 1 86400000000 = 86400000000"
    using round_half_even_of_int[of 86400000000] by (simp add: timedelta_mul_def)
  have r2: "timedelta_mul (1 / 2) 86400000000 = 43200000000"
    using round_half_even_of_int[of 43200000000] by (simp add: timedelta_mul_def)
  have r3: "timedelta_mul (1 / 4) 86400000000 = 21600000000"
    using round_half_even_of_int[of 21600000000] by (simp add: timedelta_mul_def)
  have x: "\<And>l. expovariate l 0 = 0" by (simp add: expovariate_def)
  have sel: "select_shape (growth ?s) = Exponential" "select_shape (growth ?l) = Linear"
    "select_shape (growth (example_sim 10 True)) = Uniform"
    by (simp_all add: select_shape_def example_sim_def)
  have u: "(0::real) \<le> 0" "(0::real) < 1" "(0::real) \<le> 3 / 4" "(3 / 4 :: real) < 1"
    "(0::real) \<le> 1 / 4" "(1 / 4 :: real) < 1" by simp_all
  from session_timestamp_in_horizon[OF h(1) u(1,2)] sel(1) obtain r where
    "randomize_sess_ts ?s 0 = init_time ?s + timedelta_mul r (stop_time ?s - init_time ?s)"
    "r = (if expovariate (1 / 1.5) 0 < 8 then (8 - expovariate (1 / 1.5) 0) / 8 else 1)"
    by blast
  then have a: "randomize_sess_ts ?s 0 = 86400000000" by (simp add: x r1 example_sim_def)
  from session_timestamp_in_horizon[OF h(2) u(3,4)] sel(2) obtain r where
    "randomize_sess_ts ?l (3 / 4) = init_time ?l + timedelta_mul r (stop_time ?l - init_time ?l)"
    "r = 1 - triangular 0 1 0 (3 / 4)"
    by blast
  then have b: "randomize_sess_ts ?l (3 / 4) = 43200000000"
    by (simp add: triangular_010 sq r2 example_sim_def)
  from session_timestamp_in_horizon[OF h(3) u(5,6)] sel(3) obtain r where
    "randomize_sess_ts (example_sim 10 True) (1 / 4) = init_time (example_sim 10 True) +
       timedelta_mul r (stop_time (example_sim 10 True) - init_time (example_sim 10 True))"
    "r = 1 / 4"
    by blast
  then have c: "randomize_sess_ts (example_sim 10 True) (1 / 4) = 21600000000"
    by (simp add: r3 example_sim_def)
  show ?thesis using h(1) a b c by simp
qed

section \<open>The number of arrivals\<close>

lemma created_eq:
  "created c s dr = nat (py_int (rate s) + (if arrival dr < frac (rate s) then 1 else 0))"
  using create_sessions_ok[of c s dr] by (auto simp: created_def)

lemma created_nonneg_rate:
  assumes "0 \<le> rate s"
  shows "created c s dr = nat \<lfloor>rate s\<rfloor> + (if arrival dr < frac (rate s) then 1 else 0)"
  using assms by (simp add: created_eq py_int_def nat_add_distrib)

lemma grid_below_card:
  assumes "0 \<le> p" "p \<le> 1" "0 < N"
  shows "card {k. k < N \<and> real k / real N < p} = nat \<lceil>p * real N\<rceil>"
proof -
  have le: "nat \<lceil>p * real N\<rceil> \<le> N"
  proof -
    have "p * real N \<le> real N" using assms by (simp add: mult_left_le_one_le)
    then have "\<lceil>p * real N\<rceil> \<le> int N" by (simp add: ceiling_le_iff)
    then show ?thesis by linarith
  qed
  have "{k. k < N \<and> real k / real N < p} = {..<nat \<lceil>p * real N\<rceil>}"
  proof (intro set_eqI iffI)
    fix k assume "k \<in> {k. k < N \<and> real k / real N < p}"
    then have "real k < p * real N" using assms by (simp add: field_simps)
    then have "int k < \<lceil>p * real N\<rceil>" by (simp add: less_ceiling_iff)
    then show "k \<in> {..<nat \<lceil>p * real N\<rceil>}" by simp
  next
    fix k assume "k \<in> {..<nat \<lceil>p * real N\<rceil>}"
    then have k: "k < nat \<lceil>p * real N\<rceil>" by simp
    then have "int k < \<lceil>p * real N\<rceil>" by simp
    then have "real k < p * real N" by (simp add: less_ceiling_iff)
    then have "real k / real N < p" using assms by (simp add: field_simps)
    moreover have "k < N" using k le by (rule order.strict_trans2)
    ultimately show "k \<in> {k. k < N \<and> real k / real N < p}" by simp
  qed
  then show ?thesis by simp
qed

lemma grid_fraction_tendsto:
  assumes "0 \<le> p" "p \<le> 1"
  shows "(\<lambda>N. real (card {k. k < N \<and> real k / real N < p}) / real N) \<longlonglongrightarrow> p"
proof (rule tendsto_sandwich[where f = "\<lambda>N. p" and h = "\<lambda>N. p + 1 / real N"])
  show "\<forall>\<^sub>F N in sequentially. p \<le> real (card {k. k < N \<and> real k / real N < p}) / real N"
  proof (rule eventually_sequentiallyI[of 1])
    fix N :: nat assume "1 \<le> N"
    then have N: "0 < N" by simp
    have "p * real N \<le> real_of_int \<lceil>p * real N\<rceil>" by (rule le_of_int_ceiling)
    moreover have "0 \<le> \<lceil>p * real N\<rceil>"
      using assms ceiling_mono[of 0 "p * real N"] by simp
    ultimately have "p * real N \<le> real (nat \<lceil>p * real N\<rceil>)" by simp
    then show "p \<le> real (card {k. k < N \<and> real k / real N < p}) / real N"
      unfolding grid_below_card[OF assms N] using N by (simp only: pos_le_divide_eq of_nat_0_less_iff)
  qed
  show "\<forall>\<^sub>F N in sequentially. real (card {k. k < N \<and> real k / real N < p}) / real N \<le> p + 1 / real N"
  proof (rule eventually_sequentiallyI[of 1])
    fix N :: nat assume "1 \<le> N"
    then have N: "0 < N" by simp
    have "real_of_int \<lceil>p * real N\<rceil> < p * real N + 1" by linarith
    moreover have "0 \<le> \<lceil>p * real N\<rceil>"
      using assms ceiling_mono[of 0 "p * real N"] by simp
    ultimately have "real (nat \<lceil>p * real N\<rceil>) \<le> p * real N + 1" by simp
    moreover have "(p + 1 / real N) * real N = p * real N + 1" using N by (simp add: distrib_right)
    ultimately show "real (card {k. k < N \<and> real k / real N < p}) / real N \<le> p + 1 / real N"
      unfolding grid_below_card[OF assms N] using N by (simp only: pos_divide_le_eq of_nat_0_less_iff)
  qed
  show "(\<lambda>N. p) \<longlonglongrightarrow> p" by simp
  have "(\<lambda>N. p + 1 / real N) \<longlonglongrightarrow> p + 0"
    by (intro tendsto_add tendsto_const lim_1_over_n)
  then show "(\<lambda>N. p + 1 / real N) \<longlonglongrightarrow> p" by simp
qed


lemma indicator_sum_card:
  "(\<Sum>k<(N::nat). real (if P k then 1 else 0 :: nat)) = real (card {k. k < N \<and> P k})"
proof (induction N)
  case 0
  then show ?case by simp
next
  case (Suc N)
  have "{k. k < Suc N \<and> P k} =
      (if P N then insert N {k. k < N \<and> P k} else {k. k < N \<and> P k})"
    by (auto simp: less_Suc_eq)
  moreover have "finite {k. k < N \<and> P k}" "N \<notin> {k. k < N \<and> P k}" by simp_all
  ultimately show ?case using Suc by simp
qed

text \<open>
  Claim C2. For a rate \<open>r \<ge> 0\<close>, \<^verbatim>\<open>create_sessions\<close> returns and appends \<open>\<lfloor>r\<rfloor>\<close> sessions
  to the registry, and one more exactly when the draw \<open>u\<close> of \<^verbatim>\<open>random()\<close> inside
  \<^verbatim>\<open>choices\<close> is below the fractional part of \<open>r\<close>. The draws in \<open>[0, 1)\<close> that add the
  extra session are the interval from 0 to the fractional part; over \<open>N\<close> equally spaced
  draws \<open>k / N\<close> the fraction of draws that add it tends to the fractional part of \<open>r\<close>,
  and the mean number of new sessions tends to \<open>r\<close>, as \<open>N\<close> grows.
\<close>

theorem create_sessions_unbiased:
  assumes "0 \<le> rate s"
  shows "(\<exists>s' new. create_sessions c s dr = Inr s' \<and> cur_sessions s' = cur_sessions s @ new \<and>
            length new = created c s dr) \<and>
         created c s dr = nat \<lfloor>rate s\<rfloor> + (if arrival dr < frac (rate s) then 1 else 0) \<and>
         {u. 0 \<le> u \<and> u < 1 \<and> created c s (dr\<lparr>arrival := u\<rparr>) = nat \<lfloor>rate s\<rfloor> + 1} =
           {0..<frac (rate s)} \<and>
         (\<lambda>N. real (card {k. k < N \<and>
                    created c s (dr\<lparr>arrival := real k / real N\<rparr>) = nat \<lfloor>rate s\<rfloor> + 1}) / real N)
           \<longlonglongrightarrow> frac (rate s) \<and>
         (\<lambda>N. (\<Sum>k<N. real (created c s (dr\<lparr>arrival := real k / real N\<rparr>))) / real N)
           \<longlonglongrightarrow> rate s"
proof (intro conjI)
  let ?p = "frac (rate s)"
  let ?b = "nat \<lfloor>rate s\<rfloor>"
  have p: "0 \<le> ?p" "?p \<le> 1" "?p < 1"
    using frac_ge_0[of "rate s"] frac_lt_1[of "rate s"] by simp_all
  have cr: "\<And>u. created c s (dr\<lparr>arrival := u\<rparr>) = ?b + (if u < ?p then 1 else 0)"
    using created_nonneg_rate[OF assms, of c "dr\<lparr>arrival := _\<rparr>"] by simp
  have extra: "\<And>u. created c s (dr\<lparr>arrival := u\<rparr>) = ?b + 1 \<longleftrightarrow> u < ?p"
    by (simp add: cr)
  show "\<exists>s' new. create_sessions c s dr = Inr s' \<and> cur_sessions s' = cur_sessions s @ new \<and>
            length new = created c s dr"
    using create_sessions_ok[of c s dr] by (auto simp: created_def)
  show "created c s dr = ?b + (if arrival dr < ?p then 1 else 0)"
    by (rule created_nonneg_rate[OF assms])
  show "{u. 0 \<le> u \<and> u < 1 \<and> created c s (dr\<lparr>arrival := u\<rparr>) = ?b + 1} = {0..<?p}"
    unfolding extra using p by auto
  show "(\<lambda>N. real (card {k. k < N \<and> created c s (dr\<lparr>arrival := real k / real N\<rparr>) = ?b + 1}) / real N)
           \<longlonglongrightarrow> ?p"
    unfolding extra by (rule grid_fraction_tendsto[OF p(1,2)])
  have "(\<lambda>N. real ?b + real (card {k. k < N \<and> real k / real N < ?p}) / real N)
          \<longlonglongrightarrow> real ?b + ?p"
    by (intro tendsto_add tendsto_const grid_fraction_tendsto[OF p(1,2)])
  moreover have "real ?b + ?p = rate s" using assms by (simp add: frac_def)
  moreover have "\<forall>\<^sub>F N in sequentially.
      real ?b + real (card {k. k < N \<and> real k / real N < ?p}) / real N =
      (\<Sum>k<N. real (created c s (dr\<lparr>arrival := real k / real N\<rparr>))) / real N"
  proof (rule eventually_sequentiallyI[of 1])
    fix N :: nat assume "1 \<le> N"
    then have N: "0 < N" by simp
    have "(\<Sum>k<N. real (created c s (dr\<lparr>arrival := real k / real N\<rparr>))) =
          (\<Sum>k<N. real ?b + real (if real k / real N < ?p then 1 else 0 :: nat))"
      by (intro sum.cong refl) (simp add: cr)
    also have "\<dots> = real N * real ?b + real (card {k. k < N \<and> real k / real N < ?p})"
      by (simp only: sum.distrib indicator_sum_card) simp
    finally show "real ?b + real (card {k. k < N \<and> real k / real N < ?p}) / real N =
      (\<Sum>k<N. real (created c s (dr\<lparr>arrival := real k / real N\<rparr>))) / real N"
      using N by (simp add: field_simps)
  qed
  ultimately show "(\<lambda>N. (\<Sum>k<N. real (created c s (dr\<lparr>arrival := real k / real N\<rparr>))) / real N)
           \<longlonglongrightarrow> rate s"
    using tendsto_cong[THEN iffD1] by fastforce
qed


theorem create_sessions_unbiased_witness:
  "0 \<le> rate (example_sim 10 True) \<and>
   created example_collaborators (example_sim 10 True) (example_draws (1 / 10) 0) = 2 \<and>
   created example_collaborators (example_sim 10 True) (example_draws (1 / 2) 0) = 1"
proof -
  have h: "0 \<le> rate (example_sim 10 True)" by (simp add: example_sim_def)
  have r: "rate (example_sim 10 True) = 125 / 108" by (simp add: example_sim_def)
  have f: "\<lfloor>125 / 108 :: real\<rfloor> = 1" by simp
  have p: "frac (125 / 108 :: real) = 17 / 108" unfolding frac_def f by simp
  show ?thesis
    using h create_sessions_unbiased[OF h, of example_collaborators "example_draws (1 / 10) 0"]
      create_sessions_unbiased[OF h, of example_collaborators "example_draws (1 / 2) 0"]
    unfolding r f p by (simp add: example_draws_def)
qed

section \<open>Serialized and structured events\<close>






end
